theory Spec2Isabelle
  imports Complex_Main
begin

section \<open>Numbers, points and rectangles\<close>

text \<open>
  The program computes with JavaScript numbers, which are IEEE-754 doubles. Outside the
  coordinate conversions this development models the finite ones as real numbers with
  exact arithmetic. Where the source leaves the finite numbers the model says so: a
  value that is \<open>undefined\<close> in the source is \<open>None\<close>, and so is a number that is NaN; the
  initial \<open>Infinity\<close> of a running minimum is \<open>None\<close>; a quotient that may be infinite is
  a \<open>jsnum\<close>; and a function whose result is not finite where nothing finite is
  recovered from it ends with \<open>Inl NonFinite\<close>. A property access on \<open>undefined\<close> throws
  a TypeError in the source and is \<open>Inl TypeError\<close> here. A zero of the model stands for
  the positive zero.
\<close>

datatype js_error = TypeError | NonFinite

record XYPosition =
  pos_x :: real
  pos_y :: real

record Rect =
  rect_x :: real
  rect_y :: real
  rect_width :: real
  rect_height :: real

record Box =
  box_x :: real
  box_y :: real
  box_x2 :: real
  box_y2 :: real

text \<open>A viewport \<open>{x, y, zoom}\<close>; a field that is NaN is \<open>None\<close>.\<close>

record Viewport =
  vp_x :: "real option"
  vp_y :: "real option"
  vp_zoom :: "real option"

text \<open>A transform is the array \<open>[tx, ty, tScale]\<close>; an extent is
  \<open>[[minX, minY], [maxX, maxY]]\<close>; an origin and a snap grid are two-element arrays.\<close>

type_synonym Transform = "real \<times> real \<times> real"
type_synonym CoordinateExtent = "(real \<times> real) \<times> (real \<times> real)"
type_synonym NodeOrigin = "real \<times> real"

text \<open>\<open>clamp = (val, min = 0, max = 1) => Math.min(Math.max(val, min), max)\<close>\<close>

definition clamp :: "real \<Rightarrow> real \<Rightarrow> real \<Rightarrow> real" where
  "clamp val lo hi = min (max val lo) hi"

definition clampPosition :: "XYPosition \<Rightarrow> CoordinateExtent \<Rightarrow> XYPosition" where
  "clampPosition position extent =
     \<lparr>pos_x = clamp (pos_x position) (fst (fst extent)) (fst (snd extent)),
      pos_y = clamp (pos_y position) (snd (fst extent)) (snd (snd extent))\<rparr>"



text \<open>
  A number that may be infinite or NaN. \<open>Math.min\<close> answers NaN when an argument is NaN
  and otherwise the smaller argument.
\<close>

datatype jsnum = NaN | NegInf | Fin real | PosInf

fun Math_min :: "jsnum \<Rightarrow> jsnum \<Rightarrow> jsnum" where
  "Math_min NaN b = NaN"
| "Math_min a NaN = NaN"
| "Math_min NegInf b = NegInf"
| "Math_min a NegInf = NegInf"
| "Math_min PosInf b = b"
| "Math_min a PosInf = a"
| "Math_min (Fin a) (Fin b) = Fin (min a b)"

text \<open>
  The quotient \<open>a / (b * c)\<close> of finite numbers. When the product is zero, its sign is
  the product of the signs of \<open>b\<close> and \<open>c\<close>; a number other than zero divided by a zero
  is the infinity of the sign of the number times the sign of the zero, and \<open>0 / 0\<close> is
  NaN.
\<close>

definition divideByProduct :: "real \<Rightarrow> real \<Rightarrow> real \<Rightarrow> jsnum" where
  "divideByProduct a b c =
     (if b * c \<noteq> 0 then Fin (a / (b * c))
      else if a = 0 then NaN
      else if (a < 0) = ((b < 0) \<noteq> (c < 0)) then PosInf
      else NegInf)"

text \<open>
  \<open>clamp(val, min, max) = Math.min(Math.max(val, min), max)\<close> at a \<open>val\<close> that may be
  infinite or NaN and finite \<open>min\<close> and \<open>max\<close>: NaN stays NaN, \<open>-Infinity\<close> is raised to
  \<open>min\<close> and \<open>Infinity\<close> is lowered to \<open>max\<close>.
\<close>

definition clamp_jsnum :: "jsnum \<Rightarrow> real \<Rightarrow> real \<Rightarrow> real option" where
  "clamp_jsnum val lo hi =
     (case val of
        NaN \<Rightarrow> None
      | NegInf \<Rightarrow> Some (min lo hi)
      | Fin v \<Rightarrow> Some (min (max v lo) hi)
      | PosInf \<Rightarrow> Some hi)"

text \<open>
  \<open>getViewportForBounds\<close>. The two zoom factors are \<open>width / (bounds.width * (1 + padding))\<close>
  and \<open>height / (bounds.height * (1 + padding))\<close>. With a zoom that is NaN the
  translation is NaN too.
\<close>

definition getViewportForBounds ::
  "Rect \<Rightarrow> real \<Rightarrow> real \<Rightarrow> real \<Rightarrow> real \<Rightarrow> real \<Rightarrow> Viewport" where
  "getViewportForBounds bounds width height minZoom maxZoom padding =
     (let xZoom = divideByProduct width (rect_width bounds) (1 + padding);
          yZoom = divideByProduct height (rect_height bounds) (1 + padding);
          zoom = Math_min xZoom yZoom;
          clampedZoom = clamp_jsnum zoom minZoom maxZoom;
          boundsCenterX = rect_x bounds + rect_width bounds / 2;
          boundsCenterY = rect_y bounds + rect_height bounds / 2;
          vx = map_option (\<lambda>z. width / 2 - boundsCenterX * z) clampedZoom;
          vy = map_option (\<lambda>z. height / 2 - boundsCenterY * z) clampedZoom
      in \<lparr>vp_x = vx, vp_y = vy, vp_zoom = clampedZoom\<rparr>)"

text \<open>\<open>calcAutoPanVelocity\<close>. With \<open>min = 0\<close> both branches compute \<open>0 / 0\<close>.\<close>

definition calcAutoPanVelocity :: "real \<Rightarrow> real \<Rightarrow> real \<Rightarrow> js_error + real" where
  "calcAutoPanVelocity val lo hi =
     (if val < lo then
        (if lo = 0 then Inl NonFinite else Inr (clamp \<bar>val - lo\<bar> 1 lo / lo))
      else if val > hi then
        (if lo = 0 then Inl NonFinite else Inr (- clamp \<bar>val - hi\<bar> 1 lo / lo))
      else Inr 0)"

text \<open>\<open>calcAutoPan(pos, bounds, speed = 15, distance = 40)\<close>; \<open>bounds\<close> is the
  container's rectangle, of which the width and the height are read.\<close>

definition calcAutoPan :: "XYPosition \<Rightarrow> Rect \<Rightarrow> real \<Rightarrow> real \<Rightarrow> js_error + (real \<times> real)" where
  "calcAutoPan pos bounds speed distance =
     (case calcAutoPanVelocity (pos_x pos) distance (rect_width bounds - distance) of
        Inl e \<Rightarrow> Inl e
      | Inr vx \<Rightarrow>
          (case calcAutoPanVelocity (pos_y pos) distance (rect_height bounds - distance) of
             Inl e \<Rightarrow> Inl e
           | Inr vy \<Rightarrow> Inr (vx * speed, vy * speed)))"

section \<open>Nodes\<close>

text \<open>
  A node's \<open>extent\<close> is absent, the string \<open>'parent'\<close> or a coordinate extent. The
  functions below read a node's fields and its measured size (each dimension possibly
  \<open>undefined\<close>); they are called on the user's nodes and on internal nodes alike. The
  flags \<open>expandParent\<close>, \<open>selected\<close> and \<open>hidden\<close> are read for their truthiness only,
  which is what the record \<open>NodeBase\<close> holds. An internal node carries in addition the
  internals \<open>positionAbsolute\<close>, \<open>z\<close> and \<open>userNode\<close>, the latter a reference to the user's
  node object, modelled by the number that identifies the object. The lookup of nodes
  is a JavaScript \<open>Map\<close> from ids to nodes: a partial function where the code only
  calls \<open>get\<close> and \<open>set\<close>, a list of entries in insertion order where it iterates or
  reads the size.
\<close>

datatype NodeExtent = ParentExtent | CoordExtent CoordinateExtent

record NodeBase =
  node_id :: string
  node_parentId :: "string option"
  node_position :: XYPosition
  node_origin :: "NodeOrigin option"
  node_extent :: "NodeExtent option"
  node_expandParent :: bool
  node_selected :: bool
  node_hidden :: bool
  node_zIndex :: "real option"
  node_width :: "real option"
  node_height :: "real option"
  node_initialWidth :: "real option"
  node_initialHeight :: "real option"
  measured_width :: "real option"
  measured_height :: "real option"

record InternalNode = NodeBase +
  internals_positionAbsolute :: XYPosition
  internals_z :: "real option"
  internals_userNode :: nat

type_synonym NodeLookup = "string \<rightharpoonup> InternalNode"

text \<open>\<open>a ?? b\<close> on a number that may be \<open>undefined\<close>.\<close>

definition nullish :: "real option \<Rightarrow> real \<Rightarrow> real" where
  "nullish v d = (case v of None \<Rightarrow> d | Some r \<Rightarrow> r)"

text \<open>The truthiness of a number that may be \<open>undefined\<close>: defined and not zero.\<close>

definition truthy :: "real option \<Rightarrow> bool" where
  "truthy v = (case v of None \<Rightarrow> False | Some r \<Rightarrow> r \<noteq> 0)"

text \<open>\<open>getNodeDimensions\<close>:
  \<open>node.measured?.width ?? node.width ?? node.initialWidth ?? 0\<close>, and the same for the
  height.\<close>

definition getNodeDimensions :: "'a NodeBase_scheme \<Rightarrow> real \<times> real" where
  "getNodeDimensions node =
     (nullish (measured_width node) (nullish (node_width node) (nullish (node_initialWidth node) 0)),
      nullish (measured_height node) (nullish (node_height node) (nullish (node_initialHeight node) 0)))"


definition getBoundsOfBoxes :: "Box \<Rightarrow> Box \<Rightarrow> Box" where
  "getBoundsOfBoxes box1 box2 =
     \<lparr>box_x = min (box_x box1) (box_x box2), box_y = min (box_y box1) (box_y box2),
      box_x2 = max (box_x2 box1) (box_x2 box2), box_y2 = max (box_y2 box1) (box_y2 box2)\<rparr>"


definition boxToRect :: "Box \<Rightarrow> Rect" where
  "boxToRect b =
     \<lparr>rect_x = box_x b, rect_y = box_y b,
      rect_width = box_x2 b - box_x b, rect_height = box_y2 b - box_y b\<rparr>"

text \<open>\<open>nodeToBox\<close> on an internal node, which has \<open>id\<close> and \<open>internals\<close>, so that its
  absolute position is taken.\<close>

definition nodeToBox :: "InternalNode \<Rightarrow> Box" where
  "nodeToBox node =
     (let px = pos_x (internals_positionAbsolute node);
          py = pos_y (internals_positionAbsolute node)
      in \<lparr>box_x = px, box_y = py,
          box_x2 = px + fst (getNodeDimensions node),
          box_y2 = py + snd (getNodeDimensions node)\<rparr>)"

text \<open>
  \<open>getInternalNodesBounds(nodeLookup, params)\<close> is called on the node lookup and on the
  map of drag items; the first argument here is \<open>nodeToBox\<close> at the type of the entries.
  The loop starts from the box \<open>{x: Infinity, y: Infinity, x2: -Infinity, y2: -Infinity}\<close>,
  which is \<open>None\<close> here: its union with a box is that box. When the filter lets no node
  through the result is not finite.
\<close>

fun boundsLoop :: "('n \<Rightarrow> Box) \<Rightarrow> ('n \<Rightarrow> bool) option \<Rightarrow> Box option \<Rightarrow> (string \<times> 'n) list \<Rightarrow> Box option" where
  "boundsLoop toBox flt box [] = box"
| "boundsLoop toBox flt box ((k, node) # rest) =
     (if (case flt of None \<Rightarrow> True | Some f \<Rightarrow> f node)
      then boundsLoop toBox flt
             (Some (case box of None \<Rightarrow> toBox node | Some b \<Rightarrow> getBoundsOfBoxes b (toBox node))) rest
      else boundsLoop toBox flt box rest)"

definition getInternalNodesBounds ::
  "('n \<Rightarrow> Box) \<Rightarrow> (string \<times> 'n) list \<Rightarrow> ('n \<Rightarrow> bool) option \<Rightarrow> js_error + Rect" where
  "getInternalNodesBounds toBox nodeLookup flt =
     (if length nodeLookup = 0
      then Inr \<lparr>rect_x = 0, rect_y = 0, rect_width = 0, rect_height = 0\<rparr>
      else (case boundsLoop toBox flt None nodeLookup of
              None \<Rightarrow> Inl NonFinite
            | Some box \<Rightarrow> Inr (boxToRect box)))"

section \<open>Fitting the view\<close>

text \<open>
  \<open>fitView\<close> is asynchronous: it awaits \<open>panZoom.setViewport\<close>, a collaborator outside this
  code. The model returns the boolean the promise resolves to, together with the calls
  made to \<open>panZoom.setViewport\<close> (the viewport and the \<open>duration\<close> option), taking the
  awaited call to complete.
\<close>

record FitViewOptions =
  fvo_minZoom :: "real option"
  fvo_maxZoom :: "real option"
  fvo_padding :: "real option"
  fvo_duration :: "real option"

definition fitView ::
  "(string \<times> InternalNode) list \<Rightarrow> real \<Rightarrow> real \<Rightarrow> real \<Rightarrow> real \<Rightarrow> FitViewOptions option
     \<Rightarrow> js_error + (bool \<times> (Viewport \<times> real option) list)" where
  "fitView nodes width height minZoom maxZoom options =
     (if length nodes = 0 then Inr (False, [])
      else
        (case getInternalNodesBounds nodeToBox nodes None of
           Inl e \<Rightarrow> Inl e
         | Inr bounds \<Rightarrow>
             (let viewport = getViewportForBounds bounds width height
                     (nullish (case options of None \<Rightarrow> None | Some ov \<Rightarrow> fvo_minZoom ov) minZoom)
                     (nullish (case options of None \<Rightarrow> None | Some ov \<Rightarrow> fvo_maxZoom ov) maxZoom)
                     (nullish (case options of None \<Rightarrow> None | Some ov \<Rightarrow> fvo_padding ov) (1 / 10))
              in Inr (True, [(viewport, (case options of None \<Rightarrow> None | Some ov \<Rightarrow> fvo_duration ov))]))))"

section \<open>The position of a node under its extent\<close>

text \<open>\<open>clampNodeExtent\<close>: an absent extent and \<open>'parent'\<close> are returned as they are; the
  upper corner of a coordinate extent is reduced by the node's measured size
  (\<open>node.measured?.width ?? 0\<close>).\<close>

definition clampNodeExtent :: "InternalNode \<Rightarrow> NodeExtent option \<Rightarrow> NodeExtent option" where
  "clampNodeExtent node extent =
     (case extent of
        None \<Rightarrow> None
      | Some ParentExtent \<Rightarrow> Some ParentExtent
      | Some (CoordExtent e) \<Rightarrow>
          Some (CoordExtent (fst e, (fst (snd e) - nullish (measured_width node) 0,
                                     snd (snd e) - nullish (measured_height node) 0))))"

text \<open>
  The result of \<open>calculateNodePosition\<close>. A coordinate of \<open>position\<close> is NaN (\<open>None\<close>) when
  the node's measured dimension is \<open>undefined\<close>, since it is multiplied with the origin.
  \<open>res_errors\<close> lists the codes passed to \<open>onError\<close>.
\<close>

record NodePositionResult =
  res_position :: "real option \<times> real option"
  res_positionAbsolute :: XYPosition
  res_errors :: "string list"

definition calculateNodePosition ::
  "string \<Rightarrow> XYPosition \<Rightarrow> NodeLookup \<Rightarrow> NodeOrigin \<Rightarrow> CoordinateExtent option
     \<Rightarrow> js_error + NodePositionResult" where
  "calculateNodePosition nodeId nextPosition nodeLookup nodeOrigin nodeExtent =
     (case nodeLookup nodeId of
        None \<Rightarrow> Inl TypeError
      | Some node \<Rightarrow>
          let parentNode = (case node_parentId node of
                              None \<Rightarrow> None
                            | Some pid \<Rightarrow> if pid = [] then None else nodeLookup pid);
              parentX = (case parentNode of None \<Rightarrow> 0
                         | Some pn \<Rightarrow> pos_x (internals_positionAbsolute pn));
              parentY = (case parentNode of None \<Rightarrow> 0
                         | Some pn \<Rightarrow> pos_y (internals_positionAbsolute pn));
              origin = (case node_origin node of None \<Rightarrow> nodeOrigin | Some og \<Rightarrow> og);
              initialExtent = clampNodeExtent node
                 (case node_extent node of
                    None \<Rightarrow> map_option CoordExtent nodeExtent
                  | Some e \<Rightarrow> Some e);
              parentCase = (node_extent node = Some ParentExtent \<and> \<not> node_expandParent node);
              currentExtent =
                (if parentCase then
                   (case parentNode of
                      None \<Rightarrow> initialExtent
                    | Some pn \<Rightarrow>
                        if truthy (measured_width node) \<and> truthy (measured_height node)
                           \<and> truthy (measured_width pn) \<and> truthy (measured_height pn)
                        then Some (CoordExtent
                               ((parentX, parentY),
                                (parentX + nullish (measured_width pn) 0
                                   - nullish (measured_width node) 0,
                                 parentY + nullish (measured_height pn) 0
                                   - nullish (measured_height node) 0)))
                        else initialExtent)
                 else
                   (case parentNode of
                      None \<Rightarrow> initialExtent
                    | Some pn \<Rightarrow>
                        (case node_extent node of
                           Some (CoordExtent e) \<Rightarrow>
                             Some (CoordExtent
                               ((fst (fst e) + parentX, snd (fst e) + parentY),
                                (fst (snd e) + parentX, snd (snd e) + parentY)))
                         | _ \<Rightarrow> initialExtent)));
              errors = (if parentCase \<and> parentNode = None then [''005''] else []);
              positionAbsolute =
                (case currentExtent of
                   Some (CoordExtent e) \<Rightarrow> clampPosition nextPosition e
                 | _ \<Rightarrow> nextPosition)
          in Inr \<lparr>res_position =
                    (map_option (\<lambda>w. pos_x positionAbsolute - parentX + w * fst origin)
                       (measured_width node),
                     map_option (\<lambda>h. pos_y positionAbsolute - parentY + h * snd origin)
                       (measured_height node)),
                  res_positionAbsolute = positionAbsolute,
                  res_errors = errors\<rparr>)"

section \<open>The z order of nodes\<close>





text \<open>
  A node as the user supplies it to \<open>adoptUserNodes\<close>. Here a flag may be absent, since
  \<open>adoptUserNodes\<close> fills absent fields from the defaults of its options. \<open>user_ref\<close>
  identifies the object, for the comparison with \<open>===\<close>.
\<close>

record UserNode =
  user_ref :: nat
  user_id :: string
  user_position :: XYPosition
  user_parentId :: "string option"
  user_origin :: "NodeOrigin option"
  user_extent :: "NodeExtent option"
  user_expandParent :: "bool option"
  user_selected :: "bool option"
  user_hidden :: "bool option"
  user_zIndex :: "real option"
  user_width :: "real option"
  user_height :: "real option"
  user_initialWidth :: "real option"
  user_initialHeight :: "real option"
  user_measured_width :: "real option"
  user_measured_height :: "real option"

record NodeDefaults =
  def_parentId :: "string option"
  def_origin :: "NodeOrigin option"
  def_extent :: "NodeExtent option"
  def_expandParent :: "bool option"
  def_selected :: "bool option"
  def_hidden :: "bool option"
  def_zIndex :: "real option"
  def_width :: "real option"
  def_height :: "real option"
  def_initialWidth :: "real option"
  def_initialHeight :: "real option"





text \<open>
  The options of \<open>adoptUserNodes\<close> and \<open>updateChildPosition\<close>; each may be absent, and so
  may the options as a whole. The defaults of the source are the origin \<open>[0, 0]\<close>,
  no node defaults and \<open>checkEquality: true\<close>. The boost is computed from the options as
  they are passed, not from the options with the defaults filled in.
\<close>

record StoreOptions =
  opt_nodeOrigin :: "NodeOrigin option"
  opt_elevateNodesOnSelect :: "bool option"
  opt_defaults :: "NodeDefaults option"
  opt_checkEquality :: "bool option"



definition optionsCheckEquality :: "StoreOptions option \<Rightarrow> bool" where
  "optionsCheckEquality options =
     (case options of
        None \<Rightarrow> True
      | Some ov \<Rightarrow> (case opt_checkEquality ov of None \<Rightarrow> True | Some b \<Rightarrow> b))"






section \<open>Dragging nodes\<close>












section \<open>Handles and connections\<close>

datatype HandleType = Source | Target

datatype Position = Left | Top | Right | Bottom

datatype ConnectionMode = Strict | Loose

text \<open>A handle of the handle lookup: the handle's bounds with its absolute position. Its
  \<open>id\<close> may be \<open>null\<close>.\<close>

record Handle =
  h_id :: "string option"
  h_type :: HandleType
  h_nodeId :: string
  h_position :: Position
  h_x :: real
  h_y :: real
  h_width :: real
  h_height :: real

text \<open>The handle lookup is a \<open>Map\<close> from the key \<open>nodeId-type-id\<close> to the handle, here the
  list of its entries in insertion order.\<close>

type_synonym HandleLookup = "(string \<times> Handle) list"

text \<open>
  The loop of \<open>getClosestHandle\<close> over \<open>handleLookup.values()\<close>, on the state
  \<open>(closestHandles, minDistance)\<close>; \<open>minDistance\<close> starts as \<open>Infinity\<close> (\<open>None\<close>).
\<close>

definition handleDistance :: "XYPosition \<Rightarrow> Handle \<Rightarrow> real" where
  "handleDistance pos handle = sqrt ((h_x handle - pos_x pos)\<^sup>2 + (h_y handle - pos_y pos)\<^sup>2)"

fun closestLoop ::
  "XYPosition \<Rightarrow> real \<Rightarrow> Handle list \<times> real option \<Rightarrow> Handle list \<Rightarrow> Handle list \<times> real option" where
  "closestLoop pos connectionRadius st [] = st"
| "closestLoop pos connectionRadius (closestHandles, minDistance) (handle # rest) =
     (let distance = handleDistance pos handle
      in if distance \<le> connectionRadius then
           closestLoop pos connectionRadius
             ((if (case minDistance of None \<Rightarrow> True | Some m \<Rightarrow> distance < m) then [handle]
               else if minDistance = Some distance then closestHandles @ [handle]
               else closestHandles),
              Some distance) rest
         else closestLoop pos connectionRadius (closestHandles, minDistance) rest)"

definition getClosestHandle :: "XYPosition \<Rightarrow> real \<Rightarrow> HandleLookup \<Rightarrow> Handle option" where
  "getClosestHandle pos connectionRadius handleLookup =
     (case fst (closestLoop pos connectionRadius ([], None) (map snd handleLookup)) of
        [] \<Rightarrow> None
      | [h] \<Rightarrow> Some h
      | h # hs \<Rightarrow>
          (case find (\<lambda>handle. h_type handle = Target) (h # hs) of
             Some t \<Rightarrow> Some t
           | None \<Rightarrow> Some h))"

text \<open>
  \<open>isValidHandle\<close> looks the handle up in the document. The document is a collaborator
  outside this code, so its two queries are parameters: \<open>doc_querySelector\<close> answers
  \<open>doc.querySelector(selector)\<close> and \<open>doc_elementFromPoint\<close> answers
  \<open>doc.elementFromPoint(x, y)\<close> at the position of the event. Of an element the code
  reads the class list and the attributes \<open>data-nodeid\<close> and \<open>data-handleid\<close>
  (\<open>getAttribute\<close> answers \<open>null\<close> for an absent attribute).
\<close>

record Element =
  el_classList :: "string list"
  el_data_nodeid :: "string option"
  el_data_handleid :: "string option"

record Document =
  doc_querySelector :: "string \<Rightarrow> Element option"
  doc_elementFromPoint :: "real \<Rightarrow> real \<Rightarrow> Element option"

record Connection =
  conn_source :: string
  conn_sourceHandle :: "string option"
  conn_target :: string
  conn_targetHandle :: "string option"

record ValidHandleResult =
  vh_handleDomNode :: "Element option"
  vh_isValid :: bool
  vh_connection :: "Connection option"
  vh_toHandle :: "Handle option"

text \<open>A template literal prints \<open>null\<close> for \<open>null\<close> and the name of a handle type.\<close>

definition showId :: "string option \<Rightarrow> string" where
  "showId v = (case v of None \<Rightarrow> ''null'' | Some s \<Rightarrow> s)"

definition showType :: "HandleType \<Rightarrow> string" where
  "showType t = (case t of Source \<Rightarrow> ''source'' | Target \<Rightarrow> ''target'')"

definition showTypeOpt :: "HandleType option \<Rightarrow> string" where
  "showTypeOpt t = (case t of None \<Rightarrow> ''null'' | Some ht \<Rightarrow> showType ht)"

text \<open>\<open>getHandleType(edgeUpdaterType, handleDomNode)\<close>.\<close>

definition getHandleType :: "HandleType option \<Rightarrow> Element option \<Rightarrow> HandleType option" where
  "getHandleType edgeUpdaterType handleDomNode =
     (case edgeUpdaterType of
        Some t \<Rightarrow> Some t
      | None \<Rightarrow>
          (case handleDomNode of
             None \<Rightarrow> None
           | Some el \<Rightarrow>
               if ''target'' \<in> set (el_classList el) then Some Target
               else if ''source'' \<in> set (el_classList el) then Some Source
               else None))"

text \<open>The selector
  \<open>.${lib}-flow__handle[data-id="${flowId}-${handle?.nodeId}-${handle?.id}-${handle?.type}"]\<close>.\<close>

definition handleSelector :: "string \<Rightarrow> string \<Rightarrow> Handle \<Rightarrow> string" where
  "handleSelector lib flowId handle =
     ''.'' @ lib @ ''-flow__handle[data-id='' @ [CHR 0x22] @ flowId @ ''-'' @ h_nodeId handle
       @ ''-'' @ showId (h_id handle) @ ''-'' @ showType (h_type handle) @ [CHR 0x22] @ '']''"

definition isValidHandle ::
  "XYPosition \<Rightarrow> Handle option \<Rightarrow> ConnectionMode \<Rightarrow> string \<Rightarrow> string option \<Rightarrow> HandleType
     \<Rightarrow> Document \<Rightarrow> string \<Rightarrow> string \<Rightarrow> (Connection \<Rightarrow> bool) \<Rightarrow> HandleLookup option
     \<Rightarrow> ValidHandleResult" where
  "isValidHandle eventPos handle connectionMode fromNodeId fromHandleId fromType doc lib flowId
       isValidConnection handleLookup =
     (let isTarget = (fromType = Target);
          handleDomNode = (case handle of
                             None \<Rightarrow> None
                           | Some h \<Rightarrow> doc_querySelector doc (handleSelector lib flowId h));
          handleBelow = doc_elementFromPoint doc (pos_x eventPos) (pos_y eventPos);
          handleToCheck = (case handleBelow of
                             None \<Rightarrow> handleDomNode
                           | Some el \<Rightarrow>
                               if (lib @ ''-flow__handle'') \<in> set (el_classList el)
                               then handleBelow else handleDomNode);
          result = \<lparr>vh_handleDomNode = handleToCheck, vh_isValid = False,
                    vh_connection = None, vh_toHandle = None\<rparr>
      in case handleToCheck of
           None \<Rightarrow> result
         | Some el \<Rightarrow>
             let handleType = getHandleType None handleToCheck;
                 handleId = el_data_handleid el;
                 connectable = (''connectable'' \<in> set (el_classList el));
                 connectableEnd = (''connectableend'' \<in> set (el_classList el))
             in (case el_data_nodeid el of
                   None \<Rightarrow> result
                 | Some handleNodeId \<Rightarrow>
                     if handleNodeId = [] then result
                     else
                       let connection =
                             \<lparr>conn_source = (if isTarget then handleNodeId else fromNodeId),
                              conn_sourceHandle = (if isTarget then handleId else fromHandleId),
                              conn_target = (if isTarget then fromNodeId else handleNodeId),
                              conn_targetHandle = (if isTarget then fromHandleId else handleId)\<rparr>;
                           isConnectable = (connectable \<and> connectableEnd);
                           isValid = (isConnectable \<and>
                              (if connectionMode = Strict
                               then (isTarget \<and> handleType = Some Source)
                                    \<or> (\<not> isTarget \<and> handleType = Some Target)
                               else handleNodeId \<noteq> fromNodeId \<or> handleId \<noteq> fromHandleId));
                           toHandle = (case handleLookup of
                                         None \<Rightarrow> None
                                       | Some hl \<Rightarrow>
                                           map_of hl (handleNodeId @ ''-'' @ showTypeOpt handleType
                                                        @ ''-'' @ showId handleId))
                       in \<lparr>vh_handleDomNode = handleToCheck,
                           vh_isValid = (isValid \<and> isValidConnection connection),
                           vh_connection = Some connection,
                           vh_toHandle = toHandle\<rparr>))"

section \<open>Edges\<close>

text \<open>
  An edge or a connection as \<open>addEdge\<close> receives it. A connection has no \<open>id\<close> key
  (\<open>None\<close>). A handle id is absent, \<open>null\<close> or a string; absent, \<open>null\<close> and the empty
  string are falsy. An empty \<open>source\<close> or \<open>target\<close> is falsy.
\<close>

datatype HandleId = Undefined | Null | Str string

record EdgeBase =
  edge_id :: "string option"
  edge_source :: string
  edge_target :: string
  edge_sourceHandle :: HandleId
  edge_targetHandle :: HandleId

definition falsy :: "HandleId \<Rightarrow> bool" where
  "falsy h = (h = Undefined \<or> h = Null \<or> h = Str [])"

text \<open>\<open>h || ''\<close> inside the template literal of \<open>getEdgeId\<close>.\<close>

definition orEmpty :: "HandleId \<Rightarrow> string" where
  "orEmpty h = (case h of Str s \<Rightarrow> s | _ \<Rightarrow> [])"

definition getEdgeId :: "EdgeBase \<Rightarrow> string" where
  "getEdgeId e =
     ''xy-edge__'' @ edge_source e @ orEmpty (edge_sourceHandle e) @ ''-'' @ edge_target e
       @ orEmpty (edge_targetHandle e)"

definition isEdgeBase :: "EdgeBase \<Rightarrow> bool" where
  "isEdgeBase element = (edge_id element \<noteq> None)"

text \<open>The test that \<open>connectionExists\<close> makes on each edge \<open>el\<close> of the list.\<close>

definition sameConnection :: "EdgeBase \<Rightarrow> EdgeBase \<Rightarrow> bool" where
  "sameConnection edge el =
     (edge_source el = edge_source edge \<and> edge_target el = edge_target edge
      \<and> (edge_sourceHandle el = edge_sourceHandle edge
           \<or> (falsy (edge_sourceHandle el) \<and> falsy (edge_sourceHandle edge)))
      \<and> (edge_targetHandle el = edge_targetHandle edge
           \<or> (falsy (edge_targetHandle el) \<and> falsy (edge_targetHandle edge))))"

definition connectionExists :: "EdgeBase \<Rightarrow> EdgeBase list \<Rightarrow> bool" where
  "connectionExists edge edges = list_ex (sameConnection edge) edges"

text \<open>\<open>addEdge\<close>. The warning printed for an edge without source or target is not
  modelled.\<close>

definition deleteNull :: "HandleId \<Rightarrow> HandleId" where
  "deleteNull h = (if h = Null then Undefined else h)"

definition addEdge :: "EdgeBase \<Rightarrow> EdgeBase list \<Rightarrow> EdgeBase list" where
  "addEdge edgeParams edges =
     (if edge_source edgeParams = [] \<or> edge_target edgeParams = [] then edges
      else
        let edge = (if isEdgeBase edgeParams then edgeParams
                    else edgeParams\<lparr>edge_id := Some (getEdgeId edgeParams)\<rparr>)
        in if connectionExists edge edges then edges
           else edges @ [edge\<lparr>edge_sourceHandle := deleteNull (edge_sourceHandle edge),
                               edge_targetHandle := deleteNull (edge_targetHandle edge)\<rparr>])"

text \<open>\<open>const alwaysValid = () => true\<close>, the default of \<open>isValidConnection\<close>.\<close>

definition alwaysValid :: "Connection \<Rightarrow> bool" where
  "alwaysValid connection = True"

section \<open>Example values\<close>

text \<open>A measured node without parent, extent, origin and z index, at an absolute
  position.\<close>

definition plainNode :: "string \<Rightarrow> real \<Rightarrow> real \<Rightarrow> real option \<Rightarrow> real option \<Rightarrow> InternalNode" where
  "plainNode ident px py w h =
     \<lparr>node_id = ident, node_parentId = None,
      node_position = \<lparr>pos_x = px, pos_y = py\<rparr>, node_origin = None, node_extent = None,
      node_expandParent = False, node_selected = False, node_hidden = False,
      node_zIndex = None, node_width = None, node_height = None,
      node_initialWidth = None, node_initialHeight = None,
      measured_width = w, measured_height = h,
      internals_positionAbsolute = \<lparr>pos_x = px, pos_y = py\<rparr>, internals_z = None,
      internals_userNode = 0\<rparr>"







text \<open>A handle of a node at a point, and its entry in the handle lookup.\<close>

definition handleAt :: "string \<Rightarrow> HandleType \<Rightarrow> real \<Rightarrow> real \<Rightarrow> Handle" where
  "handleAt n t px py =
     \<lparr>h_id = None, h_type = t, h_nodeId = n, h_position = Left,
      h_x = px, h_y = py, h_width = 10, h_height = 10\<rparr>"

definition handleEntry :: "Handle \<Rightarrow> string \<times> Handle" where
  "handleEntry h = (h_nodeId h @ ''-'' @ showType (h_type h) @ ''-'' @ showId (h_id h), h)"

text \<open>The element of a handle, with the class \<open>react-flow__handle\<close> and further classes,
  and a document that has this element under the pointer.\<close>

definition handleElement :: "string list \<Rightarrow> string \<Rightarrow> string option \<Rightarrow> Element" where
  "handleElement classes nodeId handleId =
     \<lparr>el_classList = ''react-flow__handle'' # classes,
      el_data_nodeid = Some nodeId, el_data_handleid = handleId\<rparr>"

definition docWith :: "Element option \<Rightarrow> Document" where
  "docWith below = \<lparr>doc_querySelector = (\<lambda>selector. None),
                    doc_elementFromPoint = (\<lambda>px py. below)\<rparr>"





section \<open>Clamping\<close>

lemma clamp_upper: "clamp v lo hi \<le> hi"
  by (simp add: clamp_def)

lemma clamp_lower: "lo \<le> hi \<Longrightarrow> lo \<le> clamp v lo hi"
  by (simp add: clamp_def)

lemma clamp_inside: "lo \<le> v \<Longrightarrow> v \<le> hi \<Longrightarrow> clamp v lo hi = v"
  by (simp add: clamp_def)

section \<open>Fitting bounds into the viewport\<close>

text \<open>
  Claim C6 as stated fails. With the padding \<open>-1\<close> both divisors are zero, and for a
  viewport of width 0 the quotient \<open>0 / 0\<close> is NaN: for the bounds
  \<open>{x: 0, y: 0, width: 100, height: 100}\<close>, a viewport of 0 by 800 and the zoom limits 0.5
  and 2, \<open>getViewportForBounds\<close> returns NaN for the zoom and for both coordinates, not a
  zoom within the limits.
\<close>

theorem C6_getViewportForBounds_counterexample:
  "getViewportForBounds \<lparr>rect_x = 0, rect_y = 0, rect_width = 100, rect_height = 100\<rparr>
     0 800 (1 / 2) 2 (- 1)
   = \<lparr>vp_x = None, vp_y = None, vp_zoom = None\<rparr>"
  by (simp add: getViewportForBounds_def divideByProduct_def clamp_jsnum_def Let_def)

text \<open>
  Claim C6, amended. Let the bounds have positive width and height. With a padding
  other than \<open>-1\<close>, \<open>getViewportForBounds\<close> returns the zoom
  \<open>z = min (max (min (width / (bounds.width * (1 + padding)))
  (height / (bounds.height * (1 + padding)))) minZoom) maxZoom\<close>, which lies between
  \<open>minZoom\<close> and \<open>maxZoom\<close> when \<open>minZoom \<le> maxZoom\<close>, with \<open>x = width / 2 - cx * z\<close> and
  \<open>y = height / 2 - cy * z\<close> for the centre \<open>(cx, cy)\<close> of the bounds. With the padding
  \<open>-1\<close> the quotients are infinite or NaN: for a viewport of positive width and height
  the zoom is \<open>maxZoom\<close>; for a width and height that are not zero and of which one is
  negative the zoom is \<open>min minZoom maxZoom\<close>; in both cases \<open>x\<close> and \<open>y\<close> follow from the
  zoom as before; and for a width or height of zero the zoom and both coordinates are
  NaN. For the bounds \<open>{x: 0, y: 0, width: 100, height: 100}\<close>, a viewport of 1200 by 800,
  the zoom limits 0.5 and 2 and no padding, the zoom is \<open>min 12 8 = 8\<close> clamped to 2 and
  the viewport is \<open>{x: 500, y: 300, zoom: 2}\<close>.
\<close>

theorem C6_getViewportForBounds_amended:
  fixes bounds :: Rect and width height minZoom maxZoom padding z :: real
  defines "z \<equiv> min (max (min (width / (rect_width bounds * (1 + padding)))
                              (height / (rect_height bounds * (1 + padding))))
                         minZoom) maxZoom"
  assumes "0 < rect_width bounds" and "0 < rect_height bounds"
  shows "(padding \<noteq> - 1 \<longrightarrow>
            getViewportForBounds bounds width height minZoom maxZoom padding
              = \<lparr>vp_x = Some (width / 2 - (rect_x bounds + rect_width bounds / 2) * z),
                 vp_y = Some (height / 2 - (rect_y bounds + rect_height bounds / 2) * z),
                 vp_zoom = Some z\<rparr>
            \<and> (minZoom \<le> maxZoom \<longrightarrow> minZoom \<le> z \<and> z \<le> maxZoom))
       \<and> (padding = - 1 \<and> 0 < width \<and> 0 < height \<longrightarrow>
            getViewportForBounds bounds width height minZoom maxZoom padding
              = \<lparr>vp_x = Some (width / 2 - (rect_x bounds + rect_width bounds / 2) * maxZoom),
                 vp_y = Some (height / 2 - (rect_y bounds + rect_height bounds / 2) * maxZoom),
                 vp_zoom = Some maxZoom\<rparr>)
       \<and> (padding = - 1 \<and> width \<noteq> 0 \<and> height \<noteq> 0 \<and> (width < 0 \<or> height < 0) \<longrightarrow>
            getViewportForBounds bounds width height minZoom maxZoom padding
              = \<lparr>vp_x = Some (width / 2
                              - (rect_x bounds + rect_width bounds / 2) * min minZoom maxZoom),
                 vp_y = Some (height / 2
                              - (rect_y bounds + rect_height bounds / 2) * min minZoom maxZoom),
                 vp_zoom = Some (min minZoom maxZoom)\<rparr>)
       \<and> (padding = - 1 \<and> (width = 0 \<or> height = 0) \<longrightarrow>
            getViewportForBounds bounds width height minZoom maxZoom padding
              = \<lparr>vp_x = None, vp_y = None, vp_zoom = None\<rparr>)
       \<and> getViewportForBounds \<lparr>rect_x = 0, rect_y = 0, rect_width = 100, rect_height = 100\<rparr>
            1200 800 (1 / 2) 2 0
          = \<lparr>vp_x = Some 500, vp_y = Some 300, vp_zoom = Some 2\<rparr>
       \<and> min (1200 / 100) (800 / 100) = (8::real) \<and> min (max (8::real) (1 / 2)) 2 = 2"
proof (intro conjI impI)
  assume p: "padding \<noteq> - 1"
  with assms(2,3) have nz: "rect_width bounds * (1 + padding) \<noteq> 0"
      "rect_height bounds * (1 + padding) \<noteq> 0"
    by (auto simp: add_eq_0_iff)
  then show "getViewportForBounds bounds width height minZoom maxZoom padding
              = \<lparr>vp_x = Some (width / 2 - (rect_x bounds + rect_width bounds / 2) * z),
                 vp_y = Some (height / 2 - (rect_y bounds + rect_height bounds / 2) * z),
                 vp_zoom = Some z\<rparr>"
    by (simp add: getViewportForBounds_def divideByProduct_def clamp_jsnum_def Let_def z_def)
  show "minZoom \<le> z" if "minZoom \<le> maxZoom"
    using that by (simp add: z_def)
  show "z \<le> maxZoom"
    by (simp add: z_def)
next
  assume "padding = - 1 \<and> 0 < width \<and> 0 < height"
  with assms(2,3) show "getViewportForBounds bounds width height minZoom maxZoom padding
              = \<lparr>vp_x = Some (width / 2 - (rect_x bounds + rect_width bounds / 2) * maxZoom),
                 vp_y = Some (height / 2 - (rect_y bounds + rect_height bounds / 2) * maxZoom),
                 vp_zoom = Some maxZoom\<rparr>"
    by (simp add: getViewportForBounds_def divideByProduct_def clamp_jsnum_def Let_def)
next
  assume "padding = - 1 \<and> width \<noteq> 0 \<and> height \<noteq> 0 \<and> (width < 0 \<or> height < 0)"
  with assms(2,3) show "getViewportForBounds bounds width height minZoom maxZoom padding
              = \<lparr>vp_x = Some (width / 2
                              - (rect_x bounds + rect_width bounds / 2) * min minZoom maxZoom),
                 vp_y = Some (height / 2
                              - (rect_y bounds + rect_height bounds / 2) * min minZoom maxZoom),
                 vp_zoom = Some (min minZoom maxZoom)\<rparr>"
    by (auto simp: getViewportForBounds_def divideByProduct_def clamp_jsnum_def Let_def
        not_less order.order_iff_strict)
next
  assume "padding = - 1 \<and> (width = 0 \<or> height = 0)"
  with assms(2,3) show "getViewportForBounds bounds width height minZoom maxZoom padding
              = \<lparr>vp_x = None, vp_y = None, vp_zoom = None\<rparr>"
    by (auto simp: getViewportForBounds_def divideByProduct_def clamp_jsnum_def Let_def)
qed (simp_all add: getViewportForBounds_def divideByProduct_def clamp_jsnum_def Let_def)

theorem C6_getViewportForBounds_amended_witness:
  "getViewportForBounds \<lparr>rect_x = 10, rect_y = 20, rect_width = 800, rect_height = 400\<rparr>
     1200 800 (1 / 2) 2 0
   = \<lparr>vp_x = Some (- 15), vp_y = Some 70, vp_zoom = Some (3 / 2)\<rparr>
   \<and> getViewportForBounds \<lparr>rect_x = 10, rect_y = 20, rect_width = 4800, rect_height = 400\<rparr>
     1200 800 (1 / 2) 2 0
   = \<lparr>vp_x = Some (- 605), vp_y = Some 290, vp_zoom = Some (1 / 2)\<rparr>
   \<and> getViewportForBounds \<lparr>rect_x = 0, rect_y = 0, rect_width = 100, rect_height = 100\<rparr>
     1200 800 (1 / 2) 2 (- 1)
   = \<lparr>vp_x = Some 500, vp_y = Some 300, vp_zoom = Some 2\<rparr>
   \<and> getViewportForBounds \<lparr>rect_x = 0, rect_y = 0, rect_width = 100, rect_height = 100\<rparr>
     (- 1200) 800 (1 / 2) 2 (- 1)
   = \<lparr>vp_x = Some (- 625), vp_y = Some 375, vp_zoom = Some (1 / 2)\<rparr>"
proof -
  let ?b1 = "\<lparr>rect_x = 10, rect_y = 20, rect_width = 800, rect_height = 400\<rparr>"
  let ?b2 = "\<lparr>rect_x = 10, rect_y = 20, rect_width = 4800, rect_height = 400\<rparr>"
  let ?b3 = "\<lparr>rect_x = 0, rect_y = 0, rect_width = 100, rect_height = 100\<rparr>"
  have h1: "0 < rect_width ?b1" "0 < rect_height ?b1" by simp_all
  have h2: "0 < rect_width ?b2" "0 < rect_height ?b2" by simp_all
  have h3: "0 < rect_width ?b3" "0 < rect_height ?b3" by simp_all
  from C6_getViewportForBounds_amended [OF h1, of 0 1200 800 "1 / 2" 2]
  have a: "getViewportForBounds ?b1 1200 800 (1 / 2) 2 0
      = \<lparr>vp_x = Some (- 15), vp_y = Some 70, vp_zoom = Some (3 / 2)\<rparr>"
    by simp
  from C6_getViewportForBounds_amended [OF h2, of 0 1200 800 "1 / 2" 2]
  have b: "getViewportForBounds ?b2 1200 800 (1 / 2) 2 0
      = \<lparr>vp_x = Some (- 605), vp_y = Some 290, vp_zoom = Some (1 / 2)\<rparr>"
    by simp
  from C6_getViewportForBounds_amended [OF h3, of "- 1" 1200 800 "1 / 2" 2]
  have c: "getViewportForBounds ?b3 1200 800 (1 / 2) 2 (- 1)
      = \<lparr>vp_x = Some 500, vp_y = Some 300, vp_zoom = Some 2\<rparr>"
    by simp
  from C6_getViewportForBounds_amended [OF h3, of "- 1" "- 1200" 800 "1 / 2" 2]
  have d: "getViewportForBounds ?b3 (- 1200) 800 (1 / 2) 2 (- 1)
      = \<lparr>vp_x = Some (- 625), vp_y = Some 375, vp_zoom = Some (1 / 2)\<rparr>"
    by simp
  from a b c d show ?thesis by simp
qed

section \<open>Auto-pan velocity\<close>

text \<open>
  Claim C7 as stated fails just past the margin: \<open>calcAutoPanVelocity\<close> clamps the distance
  past the margin from below at 1, so with a margin of 40 a pointer a quarter of a pixel
  past the margin and one half a pixel past it both get the velocity \<open>1 / 40\<close>: the
  velocity neither starts at 0 nor increases strictly there.
\<close>

theorem C7_velocity_counterexample:
  "calcAutoPanVelocity (40 - 1 / 4) 40 760 = Inr (1 / 40)
   \<and> calcAutoPanVelocity (40 - 1 / 2) 40 760 = Inr (1 / 40)
   \<and> (1 / 40 :: real) \<noteq> (1 / 4) / 40"
  by (simp add: calcAutoPanVelocity_def clamp_def)

text \<open>
  Claim C7, amended. For a pointer at least \<open>margin\<close> from every edge of the viewport
  (\<open>margin \<le> x \<le> width - margin\<close> and \<open>margin \<le> y \<le> height - margin\<close>) the velocity is
  zero on both axes and \<open>calcAutoPan\<close> returns \<open>[0, 0]\<close>. On one axis, for a coordinate
  \<open>v\<close>, the margin and the high bound \<open>hi\<close> (the size less the margin), with a margin
  other than 0: when \<open>v < margin\<close> the velocity is
  \<open>min (max (margin - v) 1) margin / margin\<close>; when \<open>margin \<le> v\<close> and \<open>hi < v\<close> it is
  \<open>- (min (max (v - hi) 1) margin / margin)\<close>. With the margin 0 the velocity of a
  coordinate below 0 or above \<open>hi\<close> is NaN. For the distance \<open>d\<close> past the margin and a
  margin of at least 1 the magnitude \<open>min (max d 1) margin / margin\<close> is \<open>1 / margin\<close> for
  \<open>d \<le> 1\<close>, is \<open>d / margin\<close> for \<open>1 \<le> d \<le> margin\<close> and strictly increasing there, and is
  1 for \<open>margin \<le> d\<close>; for a margin below 1 and other than 0 it is 1 for every \<open>d\<close>.
\<close>

theorem C7_velocity_amended:
  "(margin \<le> pos_x p \<and> pos_x p \<le> rect_width bounds - margin
      \<and> margin \<le> pos_y p \<and> pos_y p \<le> rect_height bounds - margin
      \<longrightarrow> calcAutoPanVelocity (pos_x p) margin (rect_width bounds - margin) = Inr 0
        \<and> calcAutoPanVelocity (pos_y p) margin (rect_height bounds - margin) = Inr 0
        \<and> calcAutoPan p bounds speed margin = Inr (0, 0))
   \<and> (v < margin \<and> margin \<noteq> 0
      \<longrightarrow> calcAutoPanVelocity v margin hi = Inr (min (max (margin - v) 1) margin / margin))
   \<and> (margin \<le> v \<and> hi < v \<and> margin \<noteq> 0
      \<longrightarrow> calcAutoPanVelocity v margin hi = Inr (- (min (max (v - hi) 1) margin / margin)))
   \<and> (margin = 0 \<and> (v < 0 \<or> hi < v) \<longrightarrow> calcAutoPanVelocity v margin hi = Inl NonFinite)
   \<and> (1 \<le> margin \<and> d \<le> 1 \<longrightarrow> min (max d 1) margin / margin = 1 / margin)
   \<and> (1 \<le> d \<and> d \<le> margin \<longrightarrow> min (max d 1) margin / margin = d / margin)
   \<and> (1 \<le> d \<and> d < d' \<and> d' \<le> margin
      \<longrightarrow> min (max d 1) margin / margin < min (max d' 1) margin / margin)
   \<and> (1 \<le> margin \<and> margin \<le> d \<longrightarrow> min (max d 1) margin / margin = 1)
   \<and> (margin < 1 \<and> margin \<noteq> 0 \<longrightarrow> min (max d 1) margin / margin = 1)"
proof (intro conjI impI)
  assume a: "1 \<le> d \<and> d < d' \<and> d' \<le> margin"
  then have "min (max d 1) margin = d" "min (max d' 1) margin = d'" "0 < margin"
    by simp_all
  with a show "min (max d 1) margin / margin < min (max d' 1) margin / margin"
    by (simp add: divide_strict_right_mono)
qed (auto simp: calcAutoPanVelocity_def calcAutoPan_def clamp_def)

theorem C7_velocity_amended_witness:
  "calcAutoPan \<lparr>pos_x = 40, pos_y = 300\<rparr>
     \<lparr>rect_x = 0, rect_y = 0, rect_width = 800, rect_height = 600\<rparr> 15 40 = Inr (0, 0)
   \<and> calcAutoPanVelocity 30 40 760 = Inr (1 / 4)
   \<and> calcAutoPanVelocity 770 40 760 = Inr (- (1 / 4))
   \<and> calcAutoPanVelocity 30 40 20 = Inr (1 / 4)
   \<and> calcAutoPanVelocity (- 5) 0 100 = Inl NonFinite
   \<and> calcAutoPanVelocity 0 (1 / 2) 100 = Inr 1
   \<and> calcAutoPanVelocity (40 - 1 / 4) 40 760 = Inr (1 / 40)
   \<and> calcAutoPanVelocity (- 100) 40 760 = Inr 1
   \<and> calcAutoPanVelocity 20 40 760 = Inr (1 / 2)
   \<and> calcAutoPanVelocity 10 40 760 = Inr (3 / 4)
   \<and> min (max (20::real) 1) 40 / 40 < min (max 30 1) 40 / 40"
proof -
  let ?b = "\<lparr>rect_x = 0, rect_y = 0, rect_width = 800, rect_height = 600\<rparr>"
  note t = C7_velocity_amended [where p = "\<lparr>pos_x = 40, pos_y = 300\<rparr>" and bounds = ?b
      and speed = 15]
  from t [where margin = 40 and v = 30 and hi = 760 and d = 10 and d' = 20]
  have a: "calcAutoPan \<lparr>pos_x = 40, pos_y = 300\<rparr> ?b 15 40 = Inr (0, 0)"
    and b: "calcAutoPanVelocity 30 40 760 = Inr (1 / 4)"
    by simp_all
  from t [where margin = 40 and v = 770 and hi = 760 and d = 10 and d' = 20]
  have c: "calcAutoPanVelocity 770 40 760 = Inr (- (1 / 4))"
    by simp
  from t [where margin = 40 and v = 30 and hi = 20 and d = 10 and d' = 20]
  have d: "calcAutoPanVelocity 30 40 20 = Inr (1 / 4)"
    by simp
  from t [where margin = 0 and v = "- 5" and hi = 100 and d = 10 and d' = 20]
  have e: "calcAutoPanVelocity (- 5) 0 100 = Inl NonFinite"
    by simp
  from t [where margin = "1 / 2" and v = 0 and hi = 100 and d = "1 / 2" and d' = 20]
  have f: "calcAutoPanVelocity 0 (1 / 2) 100 = Inr 1"
    by simp
  from t [where margin = 40 and v = "40 - 1 / 4" and hi = 760 and d = "1 / 4" and d' = 20]
  have g: "calcAutoPanVelocity (40 - 1 / 4) 40 760 = Inr (1 / 40)"
    by simp
  from t [where margin = 40 and v = "- 100" and hi = 760 and d = 140 and d' = 20]
  have h: "calcAutoPanVelocity (- 100) 40 760 = Inr 1"
    by simp
  from t [where margin = 40 and v = 20 and hi = 760 and d = 20 and d' = 30]
    t [where margin = 40 and v = 10 and hi = 760 and d = 20 and d' = 30]
  have i: "calcAutoPanVelocity 20 40 760 = Inr (1 / 2)"
    "calcAutoPanVelocity 10 40 760 = Inr (3 / 4)"
    "min (max (20::real) 1) 40 / 40 < min (max 30 1) 40 / 40"
    by simp_all
  from a b c d e f g h i show ?thesis by simp
qed

section \<open>Adding an edge\<close>

lemma sameConnection_ignores_id:
  "sameConnection (e\<lparr>edge_id := i\<rparr>) el = sameConnection e el"
  by (simp add: sameConnection_def)

lemma sameConnection_ignores_id2:
  "sameConnection e (el\<lparr>edge_id := i\<rparr>) = sameConnection e el"
  by (simp add: sameConnection_def)

lemma sameConnection_deleteNull:
  "sameConnection e (e'\<lparr>edge_sourceHandle := deleteNull (edge_sourceHandle e'),
                        edge_targetHandle := deleteNull (edge_targetHandle e')\<rparr>)
   = sameConnection e e'"
  by (auto simp: sameConnection_def deleteNull_def falsy_def)

lemma sameConnection_refl: "sameConnection e e"
  by (simp add: sameConnection_def)

lemma connectionExists_append:
  "connectionExists e (es @ [x]) = (connectionExists e es \<or> sameConnection e x)"
  by (auto simp: connectionExists_def list_ex_iff)

lemma connectionExists_ignores_id:
  "connectionExists (e\<lparr>edge_id := i\<rparr>) es = connectionExists e es"
  by (simp add: connectionExists_def sameConnection_def[abs_def])

lemma addEdge_idempotent: "addEdge c (addEdge c es) = addEdge c es"
  by (auto simp: addEdge_def Let_def connectionExists_append sameConnection_deleteNull
      sameConnection_refl connectionExists_ignores_id sameConnection_ignores_id
      sameConnection_ignores_id2)

text \<open>
  Claim C8 as stated fails for a list that holds the tuple more than once: \<open>addEdge\<close>
  returns such a list as it is, so after adding the connection from \<open>a\<close> to \<open>b\<close> twice to
  a list of two edges from \<open>a\<close> to \<open>b\<close> the list still holds two edges with that tuple, not
  exactly one.
\<close>

theorem C8_addEdge_counterexample:
  "addEdge \<lparr>edge_id = None, edge_source = ''a'', edge_target = ''b'',
            edge_sourceHandle = Null, edge_targetHandle = Null\<rparr>
     (addEdge \<lparr>edge_id = None, edge_source = ''a'', edge_target = ''b'',
               edge_sourceHandle = Null, edge_targetHandle = Null\<rparr>
        [\<lparr>edge_id = Some ''e1'', edge_source = ''a'', edge_target = ''b'',
           edge_sourceHandle = Undefined, edge_targetHandle = Undefined\<rparr>,
         \<lparr>edge_id = Some ''e2'', edge_source = ''a'', edge_target = ''b'',
           edge_sourceHandle = Undefined, edge_targetHandle = Undefined\<rparr>])
   = [\<lparr>edge_id = Some ''e1'', edge_source = ''a'', edge_target = ''b'',
        edge_sourceHandle = Undefined, edge_targetHandle = Undefined\<rparr>,
      \<lparr>edge_id = Some ''e2'', edge_source = ''a'', edge_target = ''b'',
        edge_sourceHandle = Undefined, edge_targetHandle = Undefined\<rparr>]"
  by (simp add: addEdge_def isEdgeBase_def connectionExists_def sameConnection_def falsy_def)

text \<open>
  Claim C8, amended. \<open>addEdge\<close> is idempotent: \<open>addEdge c (addEdge c es) = addEdge c es\<close>
  for every \<open>c\<close> and \<open>es\<close>. An edge of the list matches \<open>c\<close> when it has the source and the
  target of \<open>c\<close> and when each of its two handles equals that of \<open>c\<close> or both are among
  \<open>undefined\<close>, \<open>null\<close> and the empty string. When source and target of \<open>c\<close> are not empty
  and no edge of the list matches \<open>c\<close>, \<open>addEdge\<close> appends one edge: that of \<open>c\<close> with a
  \<open>null\<close> handle removed and, when \<open>c\<close> has no id, the id \<open>xy-edge__\<close> followed by source,
  source handle, \<open>-\<close>, target and target handle; adding \<open>c\<close> a second time leaves that
  list, in which exactly one edge matches \<open>c\<close>. When the source or the target of \<open>c\<close> is
  empty or an edge of the list matches \<open>c\<close>, the list is returned as it is, whatever the
  number of its edges that match.
\<close>

theorem C8_addEdge_amended:
  fixes c :: EdgeBase and es :: "EdgeBase list"
  defines "same \<equiv> (\<lambda>el. edge_source el = edge_source c \<and> edge_target el = edge_target c
              \<and> (edge_sourceHandle el = edge_sourceHandle c
                   \<or> (edge_sourceHandle el \<in> {Undefined, Null, Str []}
                        \<and> edge_sourceHandle c \<in> {Undefined, Null, Str []}))
              \<and> (edge_targetHandle el = edge_targetHandle c
                   \<or> (edge_targetHandle el \<in> {Undefined, Null, Str []}
                        \<and> edge_targetHandle c \<in> {Undefined, Null, Str []})))"
    and "added \<equiv> \<lparr>edge_id = (case edge_id c of
                                 Some i \<Rightarrow> Some i
                               | None \<Rightarrow> Some (''xy-edge__'' @ edge_source c
                                    @ (case edge_sourceHandle c of Str h \<Rightarrow> h | _ \<Rightarrow> [])
                                    @ ''-'' @ edge_target c
                                    @ (case edge_targetHandle c of Str h \<Rightarrow> h | _ \<Rightarrow> []))),
                    edge_source = edge_source c, edge_target = edge_target c,
                    edge_sourceHandle = (case edge_sourceHandle c of Null \<Rightarrow> Undefined | h \<Rightarrow> h),
                    edge_targetHandle = (case edge_targetHandle c of Null \<Rightarrow> Undefined | h \<Rightarrow> h)\<rparr>"
  shows "addEdge c (addEdge c es) = addEdge c es
       \<and> (edge_source c \<noteq> [] \<and> edge_target c \<noteq> [] \<and> filter same es = []
            \<longrightarrow> addEdge c es = es @ [added]
              \<and> addEdge c (addEdge c es) = es @ [added]
              \<and> length (filter same (addEdge c (addEdge c es))) = 1)
       \<and> (edge_source c = [] \<or> edge_target c = [] \<or> filter same es \<noteq> []
            \<longrightarrow> addEdge c es = es \<and> addEdge c (addEdge c es) = es)"
proof -
  have same: "same = sameConnection c"
    by (auto simp: same_def sameConnection_def falsy_def fun_eq_iff)
  have ex: "connectionExists c es = (filter same es \<noteq> [])"
    by (auto simp: same connectionExists_def list_ex_iff filter_empty_conv)
  let ?edge = "if isEdgeBase c then c else c\<lparr>edge_id := Some (getEdgeId c)\<rparr>"
  have ed: "?edge\<lparr>edge_sourceHandle := deleteNull (edge_sourceHandle ?edge),
                     edge_targetHandle := deleteNull (edge_targetHandle ?edge)\<rparr> = added"
    by (cases c)
       (auto simp: added_def isEdgeBase_def getEdgeId_def orEmpty_def deleteNull_def
          split: HandleId.splits option.splits)
  have exe: "connectionExists ?edge es = connectionExists c es"
    by (simp add: connectionExists_ignores_id)
  have fresh: "addEdge c es = es @ [added]"
    if "edge_source c \<noteq> []" "edge_target c \<noteq> []" "filter same es = []"
  proof -
    from that(3) ex exe have "\<not> connectionExists ?edge es" by simp
    with that(1,2) have "addEdge c es
        = es @ [?edge\<lparr>edge_sourceHandle := deleteNull (edge_sourceHandle ?edge),
                         edge_targetHandle := deleteNull (edge_targetHandle ?edge)\<rparr>]"
      unfolding addEdge_def Let_def by simp
    with ed show ?thesis by simp
  qed
  have sa: "same added"
    by (auto simp: same_def added_def split: HandleId.splits)
  have one: "length (filter same (es @ [added])) = 1" if "filter same es = []"
    using that sa by simp
  have keep: "addEdge c es = es"
    if "edge_source c = [] \<or> edge_target c = [] \<or> filter same es \<noteq> []"
    using that ex by (auto simp: addEdge_def Let_def connectionExists_ignores_id)
  from addEdge_idempotent [of c es] fresh one keep show ?thesis
    by auto
qed

theorem C8_addEdge_amended_witness:
  "addEdge \<lparr>edge_id = None, edge_source = ''a'', edge_target = ''b'',
            edge_sourceHandle = Null, edge_targetHandle = Str ''t''\<rparr>
     (addEdge \<lparr>edge_id = None, edge_source = ''a'', edge_target = ''b'',
               edge_sourceHandle = Null, edge_targetHandle = Str ''t''\<rparr>
        [\<lparr>edge_id = Some ''e1'', edge_source = ''a'', edge_target = ''c'',
           edge_sourceHandle = Undefined, edge_targetHandle = Str ''t''\<rparr>])
   = [\<lparr>edge_id = Some ''e1'', edge_source = ''a'', edge_target = ''c'',
        edge_sourceHandle = Undefined, edge_targetHandle = Str ''t''\<rparr>,
      \<lparr>edge_id = Some ''xy-edge__a-bt'', edge_source = ''a'', edge_target = ''b'',
        edge_sourceHandle = Undefined, edge_targetHandle = Str ''t''\<rparr>]
   \<and> addEdge \<lparr>edge_id = None, edge_source = ''a'', edge_target = ''b'',
            edge_sourceHandle = Null, edge_targetHandle = Str ''t''\<rparr>
     (addEdge \<lparr>edge_id = None, edge_source = ''a'', edge_target = ''b'',
               edge_sourceHandle = Null, edge_targetHandle = Str ''t''\<rparr>
        [\<lparr>edge_id = Some ''e1'', edge_source = ''a'', edge_target = ''b'',
           edge_sourceHandle = Str [], edge_targetHandle = Str ''t''\<rparr>])
   = [\<lparr>edge_id = Some ''e1'', edge_source = ''a'', edge_target = ''b'',
        edge_sourceHandle = Str [], edge_targetHandle = Str ''t''\<rparr>]"
proof -
  let ?c = "\<lparr>edge_id = None, edge_source = ''a'', edge_target = ''b'',
             edge_sourceHandle = Null, edge_targetHandle = Str ''t''\<rparr>"
  let ?other = "\<lparr>edge_id = Some ''e1'', edge_source = ''a'', edge_target = ''c'',
           edge_sourceHandle = Undefined, edge_targetHandle = Str ''t''\<rparr>"
  let ?same = "\<lparr>edge_id = Some ''e1'', edge_source = ''a'', edge_target = ''b'',
           edge_sourceHandle = Str [], edge_targetHandle = Str ''t''\<rparr>"
  from C8_addEdge_amended [of ?c "[?other]"]
  have a: "addEdge ?c (addEdge ?c [?other])
      = [?other, \<lparr>edge_id = Some ''xy-edge__a-bt'', edge_source = ''a'', edge_target = ''b'',
        edge_sourceHandle = Undefined, edge_targetHandle = Str ''t''\<rparr>]"
    by (simp (no_asm_use)) blast
  from C8_addEdge_amended [of ?c "[?same]"]
  have b: "addEdge ?c (addEdge ?c [?same]) = [?same]"
    by (simp (no_asm_use)) blast
  from a b show ?thesis by simp
qed

section \<open>Fitting the view to no nodes\<close>

text \<open>
  Claim C9. On an empty map of nodes \<open>fitView\<close> resolves to \<open>false\<close> and makes no call to
  \<open>panZoom.setViewport\<close>.
\<close>

theorem C9_fitView_empty:
  "fitView [] width height minZoom maxZoom options = Inr (False, [])"
  by (simp add: fitView_def)

text \<open>On a node of 100 by 100 at the origin it sets the viewport once and resolves to
  \<open>true\<close>.\<close>

lemma fitView_nonempty_example:
  "fitView [(''a'', plainNode ''a'' 0 0 (Some 100) (Some 100))] 1200 800 (1 / 2) 2
     (Some \<lparr>fvo_minZoom = None, fvo_maxZoom = None, fvo_padding = Some 0, fvo_duration = None\<rparr>)
   = Inr (True, [(\<lparr>vp_x = Some 500, vp_y = Some 300, vp_zoom = Some 2\<rparr>, None)])"
  by (simp add: fitView_def getInternalNodesBounds_def nodeToBox_def getNodeDimensions_def
      nullish_def boxToRect_def getViewportForBounds_def divideByProduct_def clamp_jsnum_def Let_def
      plainNode_def)

section \<open>The resolved z of a node\<close>









lemma adopted_node:
  assumes "optionsCheckEquality options \<longrightarrow>
           (\<forall>old. tmp (user_id u) = Some old \<longrightarrow> internals_userNode old \<noteq> user_ref u)"
  shows "(case tmp (user_id u) of
            None \<Rightarrow> fresh
          | Some old \<Rightarrow>
              if optionsCheckEquality options \<and> user_ref u = internals_userNode old
              then old else fresh) = fresh"
  using assms by (auto split: option.splits)
















section \<open>The closest handle\<close>

lemma sqrt_9: "sqrt 9 = 3"
  using real_sqrt_abs [of 3] by simp

lemma sqrt_25: "sqrt 25 = 5"
  using real_sqrt_abs [of 5] by simp

lemma closestLoop_none_in_radius:
  "\<forall>h\<in>set hs. connectionRadius < handleDistance pos h
     \<Longrightarrow> closestLoop pos connectionRadius st hs = st"
  by (induction hs arbitrary: st) (auto simp: Let_def)

text \<open>With no handle within the radius the answer is \<open>null\<close>.\<close>

lemma getClosestHandle_none_in_radius:
  "\<forall>h\<in>set (map snd handleLookup). connectionRadius < handleDistance pos h
     \<Longrightarrow> getClosestHandle pos connectionRadius handleLookup = None"
  by (simp add: getClosestHandle_def closestLoop_none_in_radius)

text \<open>
  Claim C2 says that \<open>getClosestHandle\<close> returns the handle nearest to the pointer among
  those within the radius, and a \<open>target\<close> among the nearest ones if there is one. The
  code assigns \<open>minDistance = distance\<close> for every handle within the radius, also for one
  that is farther away than the nearest so far. For the pointer at the origin, the radius
  10 and handles at the distances 1, 5 and 3 in this order, it returns the handle at
  distance 3. For handles at the distances 2 (a target), 5 and 2 (a source) it returns
  the source, although a target is among the nearest.
\<close>

theorem C2_getClosestHandle_not_closest:
  "getClosestHandle \<lparr>pos_x = 0, pos_y = 0\<rparr> 10
     [handleEntry (handleAt ''n1'' Source 1 0),
      handleEntry (handleAt ''n2'' Source 5 0),
      handleEntry (handleAt ''n3'' Source 3 0)]
   = Some (handleAt ''n3'' Source 3 0)
   \<and> handleDistance \<lparr>pos_x = 0, pos_y = 0\<rparr> (handleAt ''n1'' Source 1 0) = 1
   \<and> handleDistance \<lparr>pos_x = 0, pos_y = 0\<rparr> (handleAt ''n3'' Source 3 0) = 3
   \<and> getClosestHandle \<lparr>pos_x = 0, pos_y = 0\<rparr> 10
     [handleEntry (handleAt ''n1'' Target 2 0),
      handleEntry (handleAt ''n2'' Source 5 0),
      handleEntry (handleAt ''n3'' Source 0 2)]
   = Some (handleAt ''n3'' Source 0 2)
   \<and> handleDistance \<lparr>pos_x = 0, pos_y = 0\<rparr> (handleAt ''n1'' Target 2 0) = 2
   \<and> handleDistance \<lparr>pos_x = 0, pos_y = 0\<rparr> (handleAt ''n3'' Source 0 2) = 2"
  by (simp add: getClosestHandle_def handleDistance_def handleAt_def handleEntry_def
      sqrt_9 sqrt_25)


section \<open>A node with the extent of its parent\<close>

text \<open>
  Claim C1 as stated fails. Under a parent of 100 by 100 at the origin, a child whose
  size is not measured yet keeps the position it is given, here \<open>(5000, 5000)\<close>, and so
  does a child of the measured width 0: the code sets the parent's rectangle as extent
  only when the four measured dimensions of node and parent are truthy. And a child of
  200 by 200 in that parent is put at \<open>(-100, -100)\<close>, left of and above the parent's
  corner.
\<close>

theorem C1_parent_extent_counterexample:
  "map_sum id res_positionAbsolute
     (calculateNodePosition ''c'' \<lparr>pos_x = 5000, pos_y = 5000\<rparr>
        [''p'' \<mapsto> plainNode ''p'' 0 0 (Some 100) (Some 100),
         ''c'' \<mapsto> (plainNode ''c'' 10 10 None None)
                    \<lparr>node_parentId := Some ''p'', node_extent := Some ParentExtent\<rparr>]
        (0, 0) None)
   = Inr \<lparr>pos_x = 5000, pos_y = 5000\<rparr>
   \<and> map_sum id res_positionAbsolute
     (calculateNodePosition ''c'' \<lparr>pos_x = 5000, pos_y = 5000\<rparr>
        [''p'' \<mapsto> plainNode ''p'' 0 0 (Some 100) (Some 100),
         ''c'' \<mapsto> (plainNode ''c'' 10 10 (Some 0) (Some 20))
                    \<lparr>node_parentId := Some ''p'', node_extent := Some ParentExtent\<rparr>]
        (0, 0) None)
   = Inr \<lparr>pos_x = 5000, pos_y = 5000\<rparr>
   \<and> map_sum id res_positionAbsolute
     (calculateNodePosition ''c'' \<lparr>pos_x = 50, pos_y = 50\<rparr>
        [''p'' \<mapsto> plainNode ''p'' 0 0 (Some 100) (Some 100),
         ''c'' \<mapsto> (plainNode ''c'' 10 10 (Some 200) (Some 200))
                    \<lparr>node_parentId := Some ''p'', node_extent := Some ParentExtent\<rparr>]
        (0, 0) None)
   = Inr \<lparr>pos_x = - 100, pos_y = - 100\<rparr>"
  by (simp add: calculateNodePosition_def Let_def truthy_def nullish_def clampPosition_def
      clamp_def plainNode_def clampNodeExtent_def)

text \<open>
  Claim C1, amended. Take a node with the extent \<open>'parent'\<close> and without \<open>expandParent\<close>
  whose parent is in the lookup; \<open>calculateNodePosition\<close> returns a result for any
  \<open>nextPosition\<close>. When the measured width and height of the node and of the parent are
  all defined and not zero, the \<open>positionAbsolute\<close> is on each axis
  \<open>min (max next lo) hi\<close>, for the parent's absolute corner \<open>lo\<close> and \<open>hi\<close>, that corner plus
  the parent's size less the node's size: it is at most \<open>hi\<close> on each axis; on an axis on
  which the node is not larger than the parent it is at least \<open>lo\<close>; on an axis on which
  the node is larger than the parent it is \<open>hi\<close>, below \<open>lo\<close>. When one of these four
  measured dimensions is undefined or zero, the \<open>positionAbsolute\<close> is \<open>nextPosition\<close>,
  not clamped.
\<close>

theorem C1_parent_extent_amended:
  assumes "nodeLookup nodeId = Some node"
    and "node_extent node = Some ParentExtent" and "\<not> node_expandParent node"
    and "node_parentId node = Some pid" and "pid \<noteq> []" and "nodeLookup pid = Some parentNode"
  shows "\<exists>r. calculateNodePosition nodeId nextPosition nodeLookup nodeOrigin nodeExtent = Inr r
           \<and> (measured_width node = Some nw \<and> measured_height node = Some nh
               \<and> measured_width parentNode = Some pw \<and> measured_height parentNode = Some ph
               \<and> nw \<noteq> 0 \<and> nh \<noteq> 0 \<and> pw \<noteq> 0 \<and> ph \<noteq> 0
               \<longrightarrow> pos_x (res_positionAbsolute r)
                     = min (max (pos_x nextPosition) (pos_x (internals_positionAbsolute parentNode)))
                           (pos_x (internals_positionAbsolute parentNode) + pw - nw)
                 \<and> pos_y (res_positionAbsolute r)
                     = min (max (pos_y nextPosition) (pos_y (internals_positionAbsolute parentNode)))
                           (pos_y (internals_positionAbsolute parentNode) + ph - nh)
                 \<and> pos_x (res_positionAbsolute r)
                     \<le> pos_x (internals_positionAbsolute parentNode) + pw - nw
                 \<and> pos_y (res_positionAbsolute r)
                     \<le> pos_y (internals_positionAbsolute parentNode) + ph - nh
                 \<and> (nw \<le> pw \<longrightarrow>
                      pos_x (internals_positionAbsolute parentNode) \<le> pos_x (res_positionAbsolute r))
                 \<and> (nh \<le> ph \<longrightarrow>
                      pos_y (internals_positionAbsolute parentNode) \<le> pos_y (res_positionAbsolute r))
                 \<and> (pw < nw \<longrightarrow>
                      pos_x (res_positionAbsolute r)
                        = pos_x (internals_positionAbsolute parentNode) + pw - nw)
                 \<and> (ph < nh \<longrightarrow>
                      pos_y (res_positionAbsolute r)
                        = pos_y (internals_positionAbsolute parentNode) + ph - nh))
           \<and> (measured_width node \<in> {None, Some 0} \<or> measured_height node \<in> {None, Some 0}
               \<or> measured_width parentNode \<in> {None, Some 0}
               \<or> measured_height parentNode \<in> {None, Some 0}
               \<longrightarrow> res_positionAbsolute r = nextPosition)"
  using assms
  by (auto simp: calculateNodePosition_def Let_def truthy_def nullish_def clampPosition_def
      clamp_def clampNodeExtent_def)

theorem C1_parent_extent_amended_witness:
  "map_sum id res_positionAbsolute
     (calculateNodePosition ''c'' \<lparr>pos_x = 5000, pos_y = - 5000\<rparr>
        [''p'' \<mapsto> plainNode ''p'' 20 30 (Some 100) (Some 100),
         ''c'' \<mapsto> (plainNode ''c'' 10 10 (Some 40) (Some 40))
                    \<lparr>node_parentId := Some ''p'', node_extent := Some ParentExtent\<rparr>]
        (0, 0) None)
   = Inr \<lparr>pos_x = 80, pos_y = 30\<rparr>
   \<and> map_sum id res_positionAbsolute
     (calculateNodePosition ''c'' \<lparr>pos_x = 50, pos_y = 5000\<rparr>
        [''p'' \<mapsto> plainNode ''p'' 20 30 (Some 100) (Some 100),
         ''c'' \<mapsto> (plainNode ''c'' 10 10 (Some 200) (Some 40))
                    \<lparr>node_parentId := Some ''p'', node_extent := Some ParentExtent\<rparr>]
        (0, 0) None)
   = Inr \<lparr>pos_x = - 80, pos_y = 90\<rparr>
   \<and> map_sum id res_positionAbsolute
     (calculateNodePosition ''c'' \<lparr>pos_x = 50, pos_y = 5000\<rparr>
        [''p'' \<mapsto> plainNode ''p'' 20 30 (Some 100) (Some 0),
         ''c'' \<mapsto> (plainNode ''c'' 10 10 (Some 40) (Some 40))
                    \<lparr>node_parentId := Some ''p'', node_extent := Some ParentExtent\<rparr>]
        (0, 0) None)
   = Inr \<lparr>pos_x = 50, pos_y = 5000\<rparr>"
proof -
  let ?p = "plainNode ''p'' 20 30 (Some 100) (Some 100)"
  let ?q = "plainNode ''p'' 20 30 (Some 100) (Some 0)"
  let ?c = "(plainNode ''c'' 10 10 (Some 40) (Some 40))
              \<lparr>node_parentId := Some ''p'', node_extent := Some ParentExtent\<rparr>"
  let ?w = "(plainNode ''c'' 10 10 (Some 200) (Some 40))
              \<lparr>node_parentId := Some ''p'', node_extent := Some ParentExtent\<rparr>"
  have h1: "[''p'' \<mapsto> ?p, ''c'' \<mapsto> ?c] ''c'' = Some ?c" "node_extent ?c = Some ParentExtent"
      "\<not> node_expandParent ?c" "node_parentId ?c = Some ''p''" "''p'' \<noteq> []"
      "[''p'' \<mapsto> ?p, ''c'' \<mapsto> ?c] ''p'' = Some ?p"
    by (simp_all add: plainNode_def)
  have h2: "[''p'' \<mapsto> ?p, ''c'' \<mapsto> ?w] ''c'' = Some ?w" "node_extent ?w = Some ParentExtent"
      "\<not> node_expandParent ?w" "node_parentId ?w = Some ''p''" "''p'' \<noteq> []"
      "[''p'' \<mapsto> ?p, ''c'' \<mapsto> ?w] ''p'' = Some ?p"
    by (simp_all add: plainNode_def)
  have h3: "[''p'' \<mapsto> ?q, ''c'' \<mapsto> ?c] ''c'' = Some ?c" "node_extent ?c = Some ParentExtent"
      "\<not> node_expandParent ?c" "node_parentId ?c = Some ''p''" "''p'' \<noteq> []"
      "[''p'' \<mapsto> ?q, ''c'' \<mapsto> ?c] ''p'' = Some ?q"
    by (simp_all add: plainNode_def)
  have m: "measured_width ?c = Some 40" "measured_height ?c = Some 40"
      "measured_width ?w = Some 200" "measured_height ?w = Some 40"
      "measured_width ?p = Some 100" "measured_height ?p = Some 100"
      "measured_width ?q = Some 100" "measured_height ?q = Some 0"
      "internals_positionAbsolute ?p = \<lparr>pos_x = 20, pos_y = 30\<rparr>"
      "internals_positionAbsolute ?q = \<lparr>pos_x = 20, pos_y = 30\<rparr>"
    by (simp_all add: plainNode_def)
  have nz: "(40::real) \<noteq> 0" "(100::real) \<noteq> 0" "(200::real) \<noteq> 0" by simp_all
  from C1_parent_extent_amended [OF h1, where nextPosition = "\<lparr>pos_x = 5000, pos_y = - 5000\<rparr>"
      and nodeOrigin = "(0, 0)" and nodeExtent = None
      and nw = 40 and nh = 40 and pw = 100 and ph = 100] m nz
  obtain r1 where r1: "calculateNodePosition ''c'' \<lparr>pos_x = 5000, pos_y = - 5000\<rparr>
        [''p'' \<mapsto> ?p, ''c'' \<mapsto> ?c] (0, 0) None = Inr r1"
    and "pos_x (res_positionAbsolute r1) = min (max 5000 20) (20 + 100 - 40)"
    and "pos_y (res_positionAbsolute r1) = min (max (- 5000) 30) (30 + 100 - 40)"
    by (metis XYPosition.select_convs(1,2))
  then have "res_positionAbsolute r1 = \<lparr>pos_x = 80, pos_y = 30\<rparr>"
    by (cases "res_positionAbsolute r1") simp
  with r1 have a: "map_sum id res_positionAbsolute
     (calculateNodePosition ''c'' \<lparr>pos_x = 5000, pos_y = - 5000\<rparr>
        [''p'' \<mapsto> ?p, ''c'' \<mapsto> ?c] (0, 0) None) = Inr \<lparr>pos_x = 80, pos_y = 30\<rparr>"
    by simp
  from C1_parent_extent_amended [OF h2, where nextPosition = "\<lparr>pos_x = 50, pos_y = 5000\<rparr>"
      and nodeOrigin = "(0, 0)" and nodeExtent = None
      and nw = 200 and nh = 40 and pw = 100 and ph = 100] m nz
  obtain r2 where r2: "calculateNodePosition ''c'' \<lparr>pos_x = 50, pos_y = 5000\<rparr>
        [''p'' \<mapsto> ?p, ''c'' \<mapsto> ?w] (0, 0) None = Inr r2"
    and "pos_x (res_positionAbsolute r2) = min (max 50 20) (20 + 100 - 200)"
    and "pos_y (res_positionAbsolute r2) = min (max 5000 30) (30 + 100 - 40)"
    by (metis XYPosition.select_convs(1,2))
  then have "res_positionAbsolute r2 = \<lparr>pos_x = - 80, pos_y = 90\<rparr>"
    by (cases "res_positionAbsolute r2") simp
  with r2 have b: "map_sum id res_positionAbsolute
     (calculateNodePosition ''c'' \<lparr>pos_x = 50, pos_y = 5000\<rparr>
        [''p'' \<mapsto> ?p, ''c'' \<mapsto> ?w] (0, 0) None) = Inr \<lparr>pos_x = - 80, pos_y = 90\<rparr>"
    by simp
  from C1_parent_extent_amended [OF h3, where nextPosition = "\<lparr>pos_x = 50, pos_y = 5000\<rparr>"
      and nodeOrigin = "(0, 0)" and nodeExtent = None] m
  obtain r3 where r3: "calculateNodePosition ''c'' \<lparr>pos_x = 50, pos_y = 5000\<rparr>
        [''p'' \<mapsto> ?q, ''c'' \<mapsto> ?c] (0, 0) None = Inr r3"
    and "res_positionAbsolute r3 = \<lparr>pos_x = 50, pos_y = 5000\<rparr>"
    by (metis insertI1 insertI2)
  then have c: "map_sum id res_positionAbsolute
     (calculateNodePosition ''c'' \<lparr>pos_x = 50, pos_y = 5000\<rparr>
        [''p'' \<mapsto> ?q, ''c'' \<mapsto> ?c] (0, 0) None) = Inr \<lparr>pos_x = 50, pos_y = 5000\<rparr>"
    by simp
  from a b c show ?thesis by simp
qed

section \<open>The validity of a connection\<close>

text \<open>
  Claim C5 as stated fails. In strict mode a connection from a source handle to a handle
  element of the class \<open>target\<close> is not valid when that element lacks the classes
  \<open>connectable\<close> and \<open>connectableend\<close>. In loose mode the source handle \<open>a\<close> of a node does
  not connect to the target handle \<open>a\<close> of the same node, a different handle. In strict
  mode it does: only the types are compared there, not node and handle id.
\<close>

theorem C5_validity_counterexample:
  "\<not> vh_isValid (isValidHandle \<lparr>pos_x = 0, pos_y = 0\<rparr> None Strict ''n1'' None Source
        (docWith (Some (handleElement [''target''] ''n2'' None)))
        ''react'' ''1'' alwaysValid None)
   \<and> \<not> vh_isValid (isValidHandle \<lparr>pos_x = 0, pos_y = 0\<rparr> None Loose ''n1'' (Some ''a'') Source
        (docWith (Some (handleElement [''target'', ''connectable'', ''connectableend'']
                          ''n1'' (Some ''a''))))
        ''react'' ''1'' alwaysValid None)
   \<and> vh_isValid (isValidHandle \<lparr>pos_x = 0, pos_y = 0\<rparr> None Strict ''n1'' (Some ''a'') Source
        (docWith (Some (handleElement [''target'', ''connectable'', ''connectableend'']
                          ''n1'' (Some ''a''))))
        ''react'' ''1'' alwaysValid None)"
  by (simp add: isValidHandle_def docWith_def handleElement_def alwaysValid_def Let_def
      getHandleType_def)

text \<open>
  Claim C5, amended. The handle element that is checked is the element under the pointer
  when it has the class of a handle, and otherwise the element of the closest handle.
  The connection is valid exactly when there is such an element, it names a node, it has
  the classes \<open>connectable\<close> and \<open>connectableend\<close>, the structural rule of the mode holds, and
  \<open>isValidConnection\<close> accepts the connection (source, sourceHandle, target, targetHandle),
  in which the handle the gesture started from is the source unless it is a target. The
  structural rule in strict mode: the element has the type opposite to the starting
  handle's (node and handle id are not compared); in loose mode: its node id or its
  handle id differs from the starting handle's (the type is not compared).
\<close>

theorem C5_validity_amended:
  "vh_handleDomNode (isValidHandle eventPos handle connectionMode fromNodeId fromHandleId
       fromType doc lib flowId isValidConnection handleLookup)
   = (case doc_elementFromPoint doc (pos_x eventPos) (pos_y eventPos) of
        None \<Rightarrow> (case handle of None \<Rightarrow> None
                  | Some h \<Rightarrow> doc_querySelector doc (handleSelector lib flowId h))
      | Some below \<Rightarrow>
          if (lib @ ''-flow__handle'') \<in> set (el_classList below) then Some below
          else (case handle of None \<Rightarrow> None
                | Some h \<Rightarrow> doc_querySelector doc (handleSelector lib flowId h)))
   \<and> vh_isValid (isValidHandle eventPos handle connectionMode fromNodeId fromHandleId fromType
       doc lib flowId isValidConnection handleLookup)
   = (\<exists>el nodeId.
        vh_handleDomNode (isValidHandle eventPos handle connectionMode fromNodeId fromHandleId
           fromType doc lib flowId isValidConnection handleLookup) = Some el
        \<and> el_data_nodeid el = Some nodeId \<and> nodeId \<noteq> []
        \<and> ''connectable'' \<in> set (el_classList el)
        \<and> ''connectableend'' \<in> set (el_classList el)
        \<and> (case connectionMode of
              Strict \<Rightarrow> getHandleType None (Some el)
                         = Some (case fromType of Source \<Rightarrow> Target | Target \<Rightarrow> Source)
            | Loose \<Rightarrow> nodeId \<noteq> fromNodeId \<or> el_data_handleid el \<noteq> fromHandleId)
        \<and> isValidConnection
             (case fromType of
                Source \<Rightarrow> \<lparr>conn_source = fromNodeId, conn_sourceHandle = fromHandleId,
                            conn_target = nodeId, conn_targetHandle = el_data_handleid el\<rparr>
              | Target \<Rightarrow> \<lparr>conn_source = nodeId, conn_sourceHandle = el_data_handleid el,
                            conn_target = fromNodeId, conn_targetHandle = fromHandleId\<rparr>))"
proof
  show "vh_handleDomNode (isValidHandle eventPos handle connectionMode fromNodeId fromHandleId
       fromType doc lib flowId isValidConnection handleLookup)
   = (case doc_elementFromPoint doc (pos_x eventPos) (pos_y eventPos) of
        None \<Rightarrow> (case handle of None \<Rightarrow> None
                  | Some h \<Rightarrow> doc_querySelector doc (handleSelector lib flowId h))
      | Some below \<Rightarrow>
          if (lib @ ''-flow__handle'') \<in> set (el_classList below) then Some below
          else (case handle of None \<Rightarrow> None
                | Some h \<Rightarrow> doc_querySelector doc (handleSelector lib flowId h)))"
    by (auto simp: isValidHandle_def Let_def split: option.splits)
next
  show "vh_isValid (isValidHandle eventPos handle connectionMode fromNodeId fromHandleId fromType
       doc lib flowId isValidConnection handleLookup)
   = (\<exists>el nodeId.
        vh_handleDomNode (isValidHandle eventPos handle connectionMode fromNodeId fromHandleId
           fromType doc lib flowId isValidConnection handleLookup) = Some el
        \<and> el_data_nodeid el = Some nodeId \<and> nodeId \<noteq> []
        \<and> ''connectable'' \<in> set (el_classList el)
        \<and> ''connectableend'' \<in> set (el_classList el)
        \<and> (case connectionMode of
              Strict \<Rightarrow> getHandleType None (Some el)
                         = Some (case fromType of Source \<Rightarrow> Target | Target \<Rightarrow> Source)
            | Loose \<Rightarrow> nodeId \<noteq> fromNodeId \<or> el_data_handleid el \<noteq> fromHandleId)
        \<and> isValidConnection
             (case fromType of
                Source \<Rightarrow> \<lparr>conn_source = fromNodeId, conn_sourceHandle = fromHandleId,
                            conn_target = nodeId, conn_targetHandle = el_data_handleid el\<rparr>
              | Target \<Rightarrow> \<lparr>conn_source = nodeId, conn_sourceHandle = el_data_handleid el,
                            conn_target = fromNodeId, conn_targetHandle = fromHandleId\<rparr>))"
    by (cases fromType; cases connectionMode)
       (auto simp: isValidHandle_def Let_def split: option.splits)
qed

theorem C5_validity_amended_witness:
  "vh_isValid (isValidHandle \<lparr>pos_x = 0, pos_y = 0\<rparr> None Strict ''n1'' (Some ''a'') Source
        (docWith (Some (handleElement [''target'', ''connectable'', ''connectableend'']
                          ''n2'' (Some ''b''))))
        ''react'' ''1'' alwaysValid None)
   \<and> vh_isValid (isValidHandle \<lparr>pos_x = 0, pos_y = 0\<rparr> None Loose ''n1'' (Some ''a'') Source
        (docWith (Some (handleElement [''source'', ''connectable'', ''connectableend'']
                          ''n2'' (Some ''b''))))
        ''react'' ''1'' alwaysValid None)"
proof -
  let ?doc = "\<lambda>cls. docWith (Some (handleElement [cls, ''connectable'', ''connectableend'']
                          ''n2'' (Some ''b'')))"
  note strict = C5_validity_amended
      [of "\<lparr>pos_x = 0, pos_y = 0\<rparr>" None Strict "''n1''" "Some ''a''" Source "?doc ''target''"
          "''react''" "''1''" alwaysValid None]
  note loose = C5_validity_amended
      [of "\<lparr>pos_x = 0, pos_y = 0\<rparr>" None Loose "''n1''" "Some ''a''" Source "?doc ''source''"
          "''react''" "''1''" alwaysValid None]
  from strict loose show ?thesis
    by (simp add: docWith_def handleElement_def alwaysValid_def getHandleType_def)
qed


section \<open>Dragging a selection under the store's extent\<close>





end
